theory Spec2Isabelle
  imports Main
begin

section \<open>JavaScript values\<close>

text \<open>
  The logging facade (\<^verbatim>\<open>logger.lib.ts\<close>) and the request logging middleware
  (\<^verbatim>\<open>expressLogger.middleware.ts\<close>) branch on the run-time shape of their arguments:
  \<^verbatim>\<open>typeof\<close>, truthiness, \<^verbatim>\<open>Array.isArray\<close>, object destructuring and object spread.
  The values they see are modelled by one datatype. Numbers are the integers (status codes,
  milliseconds and byte counts are all the code ever formats); \<^verbatim>\<open>NaN\<close> and fractions are
  left out. An object is the list of its own enumerable properties in insertion order;
  an \<^verbatim>\<open>Error\<close> instance keeps its \<^verbatim>\<open>name\<close> and \<^verbatim>\<open>message\<close> (its stack text, which the
  runtime fills in, is left out). Every property is a data property: reading it yields its
  value and runs no code. Accessor properties and proxies, whose reads can throw, are not
  values of this type.
\<close>

datatype js_error = ErrorObj (err_name: string) (err_message: string)

datatype jsval =
    JUndefined
  | JNull
  | JBool bool
  | JNum int
  | JStr string
  | JArr "jsval list"
  | JObj "(string \<times> jsval) list"
  | JErr js_error

type_synonym props = "(string \<times> jsval) list"

text \<open>\<^verbatim>\<open>new Error(msg)\<close>.\<close>

definition new_Error :: "string \<Rightarrow> js_error" where
  "new_Error msg = ErrorObj ''Error'' msg"

text \<open>Truthiness, as tested by \<^verbatim>\<open>if (v)\<close>, \<^verbatim>\<open>v ? a : b\<close>, \<^verbatim>\<open>v && w\<close> and \<^verbatim>\<open>v || w\<close>.\<close>

fun truthy :: "jsval \<Rightarrow> bool" where
  "truthy JUndefined = False"
| "truthy JNull = False"
| "truthy (JBool b) = b"
| "truthy (JNum n) = (n \<noteq> 0)"
| "truthy (JStr s) = (s \<noteq> [])"
| "truthy (JArr xs) = True"
| "truthy (JObj ps) = True"
| "truthy (JErr e) = True"

fun typeof :: "jsval \<Rightarrow> string" where
  "typeof JUndefined = ''undefined''"
| "typeof JNull = ''object''"
| "typeof (JBool b) = ''boolean''"
| "typeof (JNum n) = ''number''"
| "typeof (JStr s) = ''string''"
| "typeof (JArr xs) = ''object''"
| "typeof (JObj ps) = ''object''"
| "typeof (JErr e) = ''object''"

fun isArray :: "jsval \<Rightarrow> bool" where
  "isArray (JArr xs) = True"
| "isArray v = False"

subsection \<open>Decimal rendering of numbers\<close>

text \<open>Template literals render a number in decimal: \<^verbatim>\<open>`${200}`\<close> is \<^verbatim>\<open>"200"\<close>.\<close>

definition digit_char :: "nat \<Rightarrow> char" where
  "digit_char d = ''0123456789'' ! d"

function string_of_nat :: "nat \<Rightarrow> string" where
  "string_of_nat n =
     (if n < 10 then [digit_char n] else string_of_nat (n div 10) @ [digit_char (n mod 10)])"
  by pat_completeness auto
termination
  by (relation "measure (\<lambda>n. n)") auto

declare string_of_nat.simps [simp del]

definition string_of_int :: "int \<Rightarrow> string" where
  "string_of_int i = (if i < 0 then ''-'' @ string_of_nat (nat (- i)) else string_of_nat (nat i))"

subsection \<open>Properties: reading, enumerating, assigning, spreading\<close>

text \<open>The own enumerable properties of an array or of a string are its indices.\<close>

definition index_props :: "jsval list \<Rightarrow> props" where
  "index_props xs = zip (map string_of_nat [0..<length xs]) xs"

text \<open>
  What \<^verbatim>\<open>{...v}\<close> and a rest pattern \<^verbatim>\<open>{...rest} = v\<close> enumerate. An \<^verbatim>\<open>Error\<close> has no own
  enumerable property (\<^verbatim>\<open>message\<close> and \<^verbatim>\<open>stack\<close> are not enumerable, \<^verbatim>\<open>name\<close> is inherited);
  numbers and booleans are boxed to objects without any.
\<close>

fun own_enumerable :: "jsval \<Rightarrow> props" where
  "own_enumerable (JObj ps) = ps"
| "own_enumerable (JArr xs) = index_props xs"
| "own_enumerable (JStr s) = index_props (map (\<lambda>c. JStr [c]) s)"
| "own_enumerable v = []"

text \<open>
  A property read \<^verbatim>\<open>v.key\<close> on a value other than \<^verbatim>\<open>null\<close> and \<^verbatim>\<open>undefined\<close>; a name
  the value does not have reads as \<^verbatim>\<open>undefined\<close>.
\<close>

fun prop_get :: "jsval \<Rightarrow> string \<Rightarrow> jsval" where
  "prop_get (JErr e) k =
     (if k = ''message'' then JStr (err_message e)
      else if k = ''name'' then JStr (err_name e) else JUndefined)"
| "prop_get (JArr xs) k =
     (if k = ''length'' then JNum (int (length xs))
      else case map_of (index_props xs) k of None \<Rightarrow> JUndefined | Some v \<Rightarrow> v)"
| "prop_get (JStr s) k =
     (if k = ''length'' then JNum (int (length s))
      else case map_of (index_props (map (\<lambda>c. JStr [c]) s)) k of
             None \<Rightarrow> JUndefined | Some v \<Rightarrow> v)"
| "prop_get v k = (case map_of (own_enumerable v) k of None \<Rightarrow> JUndefined | Some v' \<Rightarrow> v')"

text \<open>
  Assignment \<^verbatim>\<open>obj[k] = v\<close>: an existing key keeps its place and takes the new value, a new
  key goes to the end.
\<close>

primrec set_prop :: "string \<Rightarrow> jsval \<Rightarrow> props \<Rightarrow> props" where
  "set_prop k v [] = [(k, v)]"
| "set_prop k v (p # ps) = (if fst p = k then (k, v) # ps else p # set_prop k v ps)"

text \<open>
  An object literal of spreads, \<^verbatim>\<open>{...a, ...b}\<close>: a fresh object that is assigned every
  property of each source in turn.
\<close>

definition spread :: "props list \<Rightarrow> props" where
  "spread srcs = fold (\<lambda>(k, v). set_prop k v) (concat srcs) []"

section \<open>The logging facade\<close>

text \<open>
  A call of a method of the underlying Pino logger, with the arguments in the order the
  facade passes them: \<^verbatim>\<open>logMethod(a)\<close> and \<^verbatim>\<open>logMethod(a, b)\<close>.
\<close>

datatype log_call = Call1 jsval | Call2 jsval jsval

datatype js_exception = TypeError

text \<open>
  \<^verbatim>\<open>const logObj = data !== null && typeof data === 'object' && !Array.isArray(data)
       ? { ...data, ...rest } : { ...rest };\<close>
\<close>

definition logObj :: "jsval \<Rightarrow> props \<Rightarrow> props" where
  "logObj data rest =
     (if data \<noteq> JNull \<and> typeof data = ''object'' \<and> \<not> isArray data
      then spread [own_enumerable data, rest]
      else spread [rest])"

text \<open>
  \<^verbatim>\<open>createLogHandler(logMethod)(arg1, arg2)\<close>. The log method is an effect on some state
  \<open>'s\<close> (for Pino, the buffered output). A missing second argument is \<^verbatim>\<open>undefined\<close>.
  The destructuring \<^verbatim>\<open>const { message, data, ...rest } = arg1\<close> throws a \<^verbatim>\<open>TypeError\<close> on
  \<^verbatim>\<open>null\<close> and \<^verbatim>\<open>undefined\<close>; on every other value it reads the two properties and
  collects the remaining own enumerable ones.
\<close>

definition createLogHandler ::
  "(log_call \<Rightarrow> 's \<Rightarrow> 's) \<Rightarrow> jsval \<Rightarrow> jsval \<Rightarrow> 's \<Rightarrow> js_exception + 's" where
  "createLogHandler logMethod arg1 arg2 s =
     (if typeof arg1 = ''string'' then
        (if truthy arg2 then Inr (logMethod (Call2 arg2 arg1) s)
         else Inr (logMethod (Call1 arg1) s))
      else if arg1 = JNull \<or> arg1 = JUndefined then Inl TypeError
      else
        (let message = prop_get arg1 ''message'';
             data = prop_get arg1 ''data'';
             rest = filter (\<lambda>(k, v). k \<noteq> ''message'' \<and> k \<noteq> ''data'') (own_enumerable arg1)
         in if truthy message \<and> typeof message = ''string''
            then Inr (logMethod (Call2 (JObj (logObj data rest)) message) s)
            else Inr (logMethod (Call1 (JObj (logObj data rest))) s)))"

text \<open>
  The underlying Pino methods are external; what the facade hands them is recorded, level
  and arguments, in call order (as the repository's Jest double of the logger does).
\<close>

type_synonym pino_calls = "(string \<times> log_call) list"

definition pinoLogger_log :: "string \<Rightarrow> log_call \<Rightarrow> pino_calls \<Rightarrow> pino_calls" where
  "pinoLogger_log lvl c calls = calls @ [(lvl, c)]"

definition logger_info :: "jsval \<Rightarrow> jsval \<Rightarrow> pino_calls \<Rightarrow> js_exception + pino_calls" where
  "logger_info = createLogHandler (pinoLogger_log ''info'')"

definition logger_warn :: "jsval \<Rightarrow> jsval \<Rightarrow> pino_calls \<Rightarrow> js_exception + pino_calls" where
  "logger_warn = createLogHandler (pinoLogger_log ''warn'')"

definition logger_error :: "jsval \<Rightarrow> jsval \<Rightarrow> pino_calls \<Rightarrow> js_exception + pino_calls" where
  "logger_error = createLogHandler (pinoLogger_log ''error'')"

text \<open>
  How a call reads under the structured logger's three call shapes \<^verbatim>\<open>(message)\<close>,
  \<^verbatim>\<open>(object, message)\<close> and \<^verbatim>\<open>(object)\<close>: the message argument it carries, if any, and
  the caller-supplied fields. (\<open>call_message\<close> is the argument in message position, not the
  \<^verbatim>\<open>message\<close> entry of the record; for that see \<open>record_has_message\<close>.)
\<close>

fun call_message :: "log_call \<Rightarrow> jsval option" where
  "call_message (Call2 obj msg) = Some msg"
| "call_message (Call1 (JStr m)) = Some (JStr m)"
| "call_message (Call1 v) = None"

fun call_fields :: "log_call \<Rightarrow> props" where
  "call_fields (Call2 obj msg) = own_enumerable obj"
| "call_fields (Call1 (JStr m)) = []"
| "call_fields (Call1 v) = own_enumerable v"



subsection \<open>flush\<close>

text \<open>
  \<^verbatim>\<open>new Promise((resolve, reject) => ...)\<close> runs its executor at once; the promise is
  settled by whichever of the two functions the executor (or a callback it registered)
  calls, and stays pending when neither is called.
\<close>

datatype promise = Pending | Resolved | Rejected js_error

definition new_Promise :: "((unit \<Rightarrow> promise) \<Rightarrow> (js_error \<Rightarrow> promise) \<Rightarrow> promise) \<Rightarrow> promise" where
  "new_Promise executor = executor (\<lambda>_. Resolved) Rejected"

text \<open>
  \<^verbatim>\<open>logger.flush()\<close>. The parameter is \<^verbatim>\<open>pinoLogger.flush\<close>, which takes the callback
  \<^verbatim>\<open>(error?: Error) => void\<close>; an absent error is \<open>None\<close>.
\<close>

definition flush :: "((js_error option \<Rightarrow> promise) \<Rightarrow> promise) \<Rightarrow> promise" where
  "flush pinoLogger_flush =
     new_Promise (\<lambda>resolve reject.
       pinoLogger_flush (\<lambda>error. case error of Some e \<Rightarrow> reject e | None \<Rightarrow> resolve ()))"

section \<open>The request context store and the mixin\<close>

text \<open>
  \<^verbatim>\<open>express-http-context\<close> as seen by one logical request: a key/value store with
  \<^verbatim>\<open>set\<close> and \<^verbatim>\<open>get\<close>; a key never set reads as \<^verbatim>\<open>undefined\<close>.
\<close>

type_synonym context_store = "string \<rightharpoonup> jsval"

definition httpContext_set :: "string \<Rightarrow> jsval \<Rightarrow> context_store \<Rightarrow> context_store" where
  "httpContext_set k v st = st(k \<mapsto> v)"

definition httpContext_get :: "context_store \<Rightarrow> string \<Rightarrow> jsval" where
  "httpContext_get st k = (case st k of None \<Rightarrow> JUndefined | Some v \<Rightarrow> v)"

definition mixin :: "context_store \<Rightarrow> props" where
  "mixin st =
     (let requestName = httpContext_get st ''requestName''
      in if truthy requestName then [(''requestName'', requestName)] else [])"

section \<open>The HTTP request logging middleware\<close>

record route =
  route_path :: string

record request =
  req_method :: string
  req_url :: string
  req_baseUrl :: string
  req_route :: "route option"
  req_headers :: jsval
  req_query :: jsval
  req_body :: jsval

text \<open>
  What \<^verbatim>\<open>res.getHeader(name)\<close> returns: \<^verbatim>\<open>number | string | string[] | undefined\<close>, and
  \<^verbatim>\<open>null\<close> from the repository's response doubles.
\<close>

datatype header_value = HUndefined | HNull | HNum int | HStr string | HList "string list"

fun header_truthy :: "header_value \<Rightarrow> bool" where
  "header_truthy HUndefined = False"
| "header_truthy HNull = False"
| "header_truthy (HNum n) = (n \<noteq> 0)"
| "header_truthy (HStr s) = (s \<noteq> [])"
| "header_truthy (HList xs) = True"

fun join_comma :: "string list \<Rightarrow> string" where
  "join_comma [] = []"
| "join_comma [x] = x"
| "join_comma (x # y # ys) = x @ '','' @ join_comma (y # ys)"

text \<open>The text a template literal \<^verbatim>\<open>`${h}`\<close> inserts.\<close>

fun header_to_string :: "header_value \<Rightarrow> string" where
  "header_to_string HUndefined = ''undefined''"
| "header_to_string HNull = ''null''"
| "header_to_string (HNum n) = string_of_int n"
| "header_to_string (HStr s) = s"
| "header_to_string (HList xs) = join_comma xs"

text \<open>
  \<^verbatim>\<open>PinoResponse\<close>: \<^verbatim>\<open>locals.error\<close> is an \<^verbatim>\<open>Error\<close> or unset, \<^verbatim>\<open>responseTime\<close> a whole
  number of milliseconds or unset.
\<close>

record response =
  statusCode :: int
  statusMessage :: string
  locals_error :: "js_error option"
  responseTime :: "int option"
  getHeader :: "string \<Rightarrow> header_value"

subsection \<open>The options handed to pino-http\<close>

definition ignore :: "request \<Rightarrow> bool" where
  "ignore req \<longleftrightarrow> req_url req \<in> set [''/api/v1/health/readiness'', ''/api/v1/health/liveness'']"

definition customLogLevel :: "request \<Rightarrow> response \<Rightarrow> string" where
  "customLogLevel req res = (if statusCode res \<ge> 400 then ''error'' else ''info'')"

definition serializers_req :: "request \<Rightarrow> jsval" where
  "serializers_req req =
     JObj [(''headers'', req_headers req), (''query'', req_query req), (''body'', req_body req)]"

definition serializers_res :: "response \<Rightarrow> jsval" where
  "serializers_res res = JObj [(''statusCode'', JNum (statusCode res))]"

text \<open>\<^verbatim>\<open>customProps\<close> returns \<^verbatim>\<open>meta\<close> and may write the request name to the store.\<close>

definition customProps :: "request \<Rightarrow> response \<Rightarrow> context_store \<Rightarrow> props \<times> context_store" where
  "customProps req res st =
     (let meta = [(''type'', JStr ''http_request''),
                  (''route'', JStr (case req_route req of Some r \<Rightarrow> route_path r | None \<Rightarrow> ''N/A''))];
          st' = (case req_route req of
                   Some r \<Rightarrow>
                     httpContext_set ''requestName''
                       (JStr (req_method req @ '' - '' @ req_baseUrl req @ route_path r)) st
                 | None \<Rightarrow> st);
          meta' = (if statusCode res \<ge> 400
                   then set_prop ''error''
                          (JErr (case locals_error res of
                                   Some e \<Rightarrow> e
                                 | None \<Rightarrow>
                                     new_Error (if statusMessage res \<noteq> [] then statusMessage res
                                                else ''Request failed'')))
                          meta
                   else meta)
      in (meta', st'))"

definition customSuccessMessage :: "request \<Rightarrow> response \<Rightarrow> string" where
  "customSuccessMessage req res =
     (let time = (case responseTime res of
                    Some t \<Rightarrow> if t \<noteq> 0 then string_of_int t @ ''ms'' else ''0ms''
                  | None \<Rightarrow> ''0ms'');
          size = (let h = getHeader res ''Content-Length''
                  in if header_truthy h then header_to_string h else ''0b'')
      in req_method req @ '' '' @ req_url req @ '' '' @ string_of_int (statusCode res)
           @ '' '' @ time @ '' - '' @ size)"

definition customErrorMessage :: "request \<Rightarrow> response \<Rightarrow> string" where
  "customErrorMessage req res =
     (let time = (case responseTime res of
                    Some t \<Rightarrow> if t \<noteq> 0 then string_of_int t @ ''ms'' else ''0ms''
                  | None \<Rightarrow> ''0ms'');
          size = (let h = getHeader res ''Content-Length''
                  in if header_truthy h then header_to_string h else ''0b'')
      in req_method req @ '' '' @ req_url req @ '' '' @ string_of_int (statusCode res)
           @ '' '' @ time @ '' - '' @ size)"

subsection \<open>The middleware\<close>

text \<open>
  pino-http itself is an external package. The order in which it consults the options is
  taken from the double of it in \<^verbatim>\<open>expressLogger.middleware.test.ts\<close>: an ignored request
  goes straight to \<^verbatim>\<open>next()\<close>; otherwise the level, the serializers, \<^verbatim>\<open>customProps\<close> and
  the message (the success message below status 400, the error message from 400 on) are
  computed, in that order, and then \<^verbatim>\<open>next()\<close> is called. The values computed for one
  request form its summary record.
\<close>

record summary =
  s_level :: string
  s_req :: jsval
  s_res :: jsval
  s_props :: props
  s_message :: string

record mw_state =
  store :: context_store
  emitted :: "summary list"
  next_calls :: nat

definition next_handler :: "mw_state \<Rightarrow> mw_state" where
  "next_handler st = st\<lparr>next_calls := Suc (next_calls st)\<rparr>"

definition expressLogger :: "request \<Rightarrow> response \<Rightarrow> mw_state \<Rightarrow> mw_state" where
  "expressLogger req res st =
     (if ignore req then next_handler st
      else
        (let logLevel = customLogLevel req res;
             serializedReq = serializers_req req;
             serializedRes = serializers_res res;
             (meta, store') = customProps req res (store st);
             msg = (if statusCode res < 400 then customSuccessMessage req res
                    else customErrorMessage req res)
         in next_handler
              (st\<lparr>store := store',
                  emitted := emitted st @
                    [\<lparr>s_level = logLevel, s_req = serializedReq, s_res = serializedRes,
                      s_props = meta, s_message = msg\<rparr>]\<rparr>)))"

text \<open>
  The stores a request can see: nothing is written outside \<^verbatim>\<open>customProps\<close>, so a store
  is either fresh or the result of running \<^verbatim>\<open>customProps\<close> on a store of that kind.
\<close>

inductive request_store :: "context_store \<Rightarrow> bool" where
  fresh: "request_store Map.empty"
| written: "request_store st \<Longrightarrow> request_store (snd (customProps req res st))"

section \<open>What the specification says, in its own words\<close>

text \<open>
  The remaining keys of an object input: every key other than \<^verbatim>\<open>message\<close> and \<^verbatim>\<open>data\<close>.
\<close>

definition remainingKeys :: "props \<Rightarrow> (string \<rightharpoonup> jsval)" where
  "remainingKeys ps = (\<lambda>k. if k = ''message'' \<or> k = ''data'' then None else map_of ps k)"

text \<open>
  \<^verbatim>\<open>extraFields = {...(data is a non-array plain object ? data : {}), ...remainingKeys}\<close>,
  read as a mapping from keys to values; on a collision the right-hand side of \<open>++\<close> wins.
\<close>

definition spec_extraFields :: "props \<Rightarrow> (string \<rightharpoonup> jsval)" where
  "spec_extraFields ps =
     (case map_of ps ''data'' of Some (JObj d) \<Rightarrow> map_of d | _ \<Rightarrow> Map.empty) ++ remainingKeys ps"



section \<open>Example inputs\<close>

text \<open>The scenarios of the specification and of the repository's tests.\<close>

definition order_created :: props where
  "order_created =
     [(''message'', JStr ''Order created''),
      (''data'', JObj [(''orderId'', JStr ''ORD-123''), (''total'', JNum 150)]),
      (''userId'', JNum 456)]"

definition undefined_data :: props where
  "undefined_data = [(''message'', JStr ''Test''), (''data'', JUndefined), (''extra'', JStr ''x'')]"



definition scenario_request :: request where
  "scenario_request =
     \<lparr>req_method = ''GET'', req_url = ''/api/v1/test'', req_baseUrl = ''/api/v1'',
      req_route = Some \<lparr>route_path = ''/test''\<rparr>,
      req_headers = JObj [], req_query = JObj [], req_body = JObj []\<rparr>"

definition scenario_response :: response where
  "scenario_response =
     \<lparr>statusCode = 200, statusMessage = ''OK'', locals_error = None, responseTime = Some 123,
      getHeader = (\<lambda>name. if name = ''Content-Length'' then HStr ''456'' else HUndefined)\<rparr>"

definition unresolved_request :: request where
  "unresolved_request =
     \<lparr>req_method = ''GET'', req_url = ''/nowhere'', req_baseUrl = '''',
      req_route = None,
      req_headers = JObj [], req_query = JObj [], req_body = JObj []\<rparr>"

definition failed_response :: response where
  "failed_response =
     \<lparr>statusCode = 500, statusMessage = '''', locals_error = None, responseTime = None,
      getHeader = (\<lambda>name. HUndefined)\<rparr>"

definition liveness_request :: request where
  "liveness_request =
     \<lparr>req_method = ''GET'', req_url = ''/api/v1/health/liveness'', req_baseUrl = '''',
      req_route = None,
      req_headers = JObj [], req_query = JObj [], req_body = JObj []\<rparr>"

definition initial_state :: mw_state where
  "initial_state = \<lparr>store = Map.empty, emitted = [], next_calls = 0\<rparr>"

section \<open>Objects as mappings\<close>

lemma map_of_set_prop: "map_of (set_prop k v ps) = (map_of ps)(k \<mapsto> v)"
  by (induction ps) (auto simp: fun_eq_iff)

lemma map_of_fold_set_prop:
  "map_of (fold (\<lambda>(k, v). set_prop k v) src tgt) = map_of tgt ++ map_of (rev src)"
proof (induction src arbitrary: tgt)
  case Nil
  show ?case by simp
next
  case (Cons p src)
  obtain k v where p: "p = (k, v)" by (cases p)
  show ?case
    by (simp add: p Cons.IH map_of_set_prop fun_eq_iff map_add_def split: option.splits)
qed

text \<open>With one value per key, the order in which the properties are read does not matter.\<close>

lemma map_of_rev_distinct: "distinct (map fst ps) \<Longrightarrow> map_of (rev ps) = map_of ps"
proof (induction ps)
  case Nil
  show ?case by simp
next
  case (Cons p ps)
  obtain k v where p: "p = (k, v)" by (cases p)
  from Cons.prems have fresh: "map_of ps k = None" and dist: "distinct (map fst ps)"
    by (auto simp: p map_of_eq_None_iff)
  show ?case
    using fresh by (auto simp: p Cons.IH [OF dist] fun_eq_iff map_add_def split: option.splits)
qed

lemma map_of_spread2:
  "distinct (map fst d) \<Longrightarrow> distinct (map fst r) \<Longrightarrow> map_of (spread [d, r]) = map_of d ++ map_of r"
  by (simp add: spread_def map_of_fold_set_prop map_of_rev_distinct)

lemma map_of_spread1:
  "distinct (map fst r) \<Longrightarrow> map_of (spread [r]) = map_of r"
  by (simp add: spread_def map_of_fold_set_prop map_of_rev_distinct)

lemma map_of_rest:
  "map_of (filter (\<lambda>(k, v). k \<noteq> ''message'' \<and> k \<noteq> ''data'') ps) = remainingKeys ps"
  by (induction ps) (auto simp: fun_eq_iff remainingKeys_def)

lemma distinct_rest:
  "distinct (map fst ps) \<Longrightarrow> distinct (map fst (filter P ps))"
  by (simp add: distinct_map_filter)

lemma map_of_logObj:
  assumes "distinct (map fst (own_enumerable data))" and "distinct (map fst rest)"
  shows "map_of (logObj data rest) =
           (case data of JObj d \<Rightarrow> map_of d | _ \<Rightarrow> Map.empty) ++ map_of rest"
  using assms by (cases data) (simp_all add: logObj_def map_of_spread1 map_of_spread2)

section \<open>The facade, branch by branch\<close>

lemma createLogHandler_string:
  "createLogHandler logMethod (JStr m) arg2 s =
     Inr (logMethod (if truthy arg2 then Call2 arg2 (JStr m) else Call1 (JStr m)) s)"
  by (simp add: createLogHandler_def)

lemma createLogHandler_object:
  "createLogHandler logMethod (JObj ps) arg2 s =
     Inr (logMethod
       (let message = prop_get (JObj ps) ''message'';
            fields = JObj (logObj (prop_get (JObj ps) ''data'')
                       (filter (\<lambda>(k, v). k \<noteq> ''message'' \<and> k \<noteq> ''data'') ps))
        in if truthy message \<and> typeof message = ''string''
           then Call2 fields message else Call1 fields) s)"
  by (simp add: createLogHandler_def Let_def)


text \<open>
  Claim C2, as amended. The facade's entry points do not throw on a primary argument that
  is a string, a number, a boolean, an array, an \<^verbatim>\<open>Error\<close> or an object, as long as its
  properties (and those of its \<^verbatim>\<open>data\<close>) are data properties, which is what the values of
  \<open>jsval\<close> are: the call coerces best-effort, calls the underlying log method once at its
  level and returns. Left out are \<^verbatim>\<open>null\<close> and \<^verbatim>\<open>undefined\<close>, which throw, and objects with
  an accessor or a proxy trap that throws when read, which the destructuring and the
  spreads would run unguarded.
\<close>

theorem facade_returns_unless_nullish:
  "arg1 \<noteq> JNull \<Longrightarrow> arg1 \<noteq> JUndefined \<Longrightarrow>
     \<exists>c. createLogHandler (pinoLogger_log lvl) arg1 arg2 calls = Inr (calls @ [(lvl, c)])"
  by (auto simp: createLogHandler_def Let_def pinoLogger_log_def)

theorem facade_returns_unless_nullish_witness:
  "JNum 5 \<noteq> JNull \<and> JNum 5 \<noteq> JUndefined
   \<and> (\<exists>c. createLogHandler (pinoLogger_log ''warn'') (JNum 5) JUndefined [] = Inr [(''warn'', c)])"
  using facade_returns_unless_nullish [of "JNum 5" "''warn''" JUndefined "[]"] by simp

text \<open>
  Claim C2 as stated fails: \<^verbatim>\<open>logger.info(null)\<close> and \<^verbatim>\<open>logger.info(undefined)\<close> throw a
  \<^verbatim>\<open>TypeError\<close> at the destructuring of the primary argument.
\<close>

theorem facade_throws_on_null:
  "logger_info JNull JUndefined [] = Inl TypeError
   \<and> logger_info JUndefined JUndefined [] = Inl TypeError"
  by (simp add: logger_info_def createLogHandler_def)

text \<open>
  Claim C3. For an object input (one value per key, in the object and in its \<^verbatim>\<open>data\<close>),
  the fields handed to the underlying logger are, as a mapping, the spread union
  \<^verbatim>\<open>{...data, ...remainingKeys}\<close> when \<^verbatim>\<open>data\<close> is a non-array plain object, with the
  remaining keys winning on a collision, and the remaining keys alone when \<^verbatim>\<open>data\<close> is
  \<^verbatim>\<open>undefined\<close>, \<^verbatim>\<open>null\<close>, an array, or omitted.
\<close>

theorem object_input_extra_fields:
  assumes "distinct (map fst ps)"
    and "distinct (map fst (own_enumerable (prop_get (JObj ps) ''data'')))"
  shows "\<exists>c. createLogHandler (pinoLogger_log lvl) (JObj ps) arg2 calls = Inr (calls @ [(lvl, c)])
           \<and> map_of (call_fields c) = spec_extraFields ps"
proof -
  let ?data = "prop_get (JObj ps) ''data''"
  let ?rest = "filter (\<lambda>(k, v). k \<noteq> ''message'' \<and> k \<noteq> ''data'') ps"
  have rest: "distinct (map fst ?rest)"
    using assms(1) by (rule distinct_rest)
  have "map_of (logObj ?data ?rest) = spec_extraFields ps"
    unfolding map_of_logObj [OF assms(2) rest] map_of_rest spec_extraFields_def
    by (simp split: option.splits jsval.splits)
  then show ?thesis
    by (auto simp: createLogHandler_object Let_def pinoLogger_log_def)
qed

theorem object_input_extra_fields_witness:
  "distinct (map fst order_created)
   \<and> distinct (map fst (own_enumerable (prop_get (JObj order_created) ''data'')))
   \<and> (\<exists>c. createLogHandler (pinoLogger_log ''info'') (JObj order_created) JUndefined []
              = Inr [(''info'', c)]
          \<and> map_of (call_fields c) = spec_extraFields order_created)
   \<and> spec_extraFields order_created =
        [''orderId'' \<mapsto> JStr ''ORD-123'', ''total'' \<mapsto> JNum 150, ''userId'' \<mapsto> JNum 456]
   \<and> (\<exists>c. createLogHandler (pinoLogger_log ''info'') (JObj undefined_data) JUndefined []
              = Inr [(''info'', c)]
          \<and> map_of (call_fields c) = [''extra'' \<mapsto> JStr ''x''])"
proof -
  have d1: "distinct (map fst order_created)"
    by (simp add: order_created_def)
  have d2: "distinct (map fst (own_enumerable (prop_get (JObj order_created) ''data'')))"
    by (simp add: order_created_def)
  have sp: "spec_extraFields order_created =
        [''orderId'' \<mapsto> JStr ''ORD-123'', ''total'' \<mapsto> JNum 150, ''userId'' \<mapsto> JNum 456]"
    by (auto simp: order_created_def spec_extraFields_def remainingKeys_def fun_eq_iff map_add_def)
  have u1: "distinct (map fst undefined_data)"
    by (simp add: undefined_data_def)
  have u2: "distinct (map fst (own_enumerable (prop_get (JObj undefined_data) ''data'')))"
    by (simp add: undefined_data_def)
  have su: "spec_extraFields undefined_data = [''extra'' \<mapsto> JStr ''x'']"
    by (auto simp: undefined_data_def spec_extraFields_def remainingKeys_def fun_eq_iff map_add_def)
  show ?thesis
    using d1 d2 sp su
      object_input_extra_fields [OF d1 d2, of "''info''" JUndefined "[]"]
      object_input_extra_fields [OF u1 u2, of "''info''" JUndefined "[]"]
    by simp
qed

text \<open>
  Claim C4, as amended. For a string primary argument: without a second argument the
  underlying logger is called with the message alone, so the record has no extra fields
  and its message is the input; with a truthy second argument it is called as
  \<^verbatim>\<open>(secondArg, message)\<close>; a falsy second argument (\<^verbatim>\<open>undefined\<close>, \<^verbatim>\<open>null\<close>, \<^verbatim>\<open>false\<close>,
  \<^verbatim>\<open>0\<close>, the empty string) is dropped and the message is logged alone.
\<close>

theorem string_input_calls:
  "createLogHandler logMethod (JStr m) JUndefined s = Inr (logMethod (Call1 (JStr m)) s)
   \<and> call_fields (Call1 (JStr m)) = []
   \<and> call_message (Call1 (JStr m)) = Some (JStr m)
   \<and> (truthy arg2 \<longrightarrow>
        createLogHandler logMethod (JStr m) arg2 s = Inr (logMethod (Call2 arg2 (JStr m)) s))
   \<and> (\<not> truthy arg2 \<longrightarrow>
        createLogHandler logMethod (JStr m) arg2 s = Inr (logMethod (Call1 (JStr m)) s))"
  by (simp add: createLogHandler_string)

theorem string_input_calls_witness:
  "truthy (JObj [(''userId'', JNum 123)])
   \<and> logger_info (JStr ''Operation started'') (JObj [(''userId'', JNum 123)]) []
       = Inr [(''info'', Call2 (JObj [(''userId'', JNum 123)]) (JStr ''Operation started''))]
   \<and> \<not> truthy JNull
   \<and> logger_info (JStr ''Operation started'') JNull []
       = Inr [(''info'', Call1 (JStr ''Operation started''))]"
  using string_input_calls [of "pinoLogger_log ''info''" "''Operation started''" "[]"
      "JObj [(''userId'', JNum 123)]"]
    string_input_calls [of "pinoLogger_log ''info''" "''Operation started''" "[]" JNull]
  by (simp add: logger_info_def pinoLogger_log_def)

text \<open>
  Claim C4 as stated fails for a second argument that is falsy:
  \<^verbatim>\<open>logger.error('Failed', '')\<close> calls the underlying logger with the message alone, not
  as \<^verbatim>\<open>('', 'Failed')\<close>.
\<close>

theorem string_input_falsy_second_argument:
  "logger_error (JStr ''Failed'') (JStr '''') [] = Inr [(''error'', Call1 (JStr ''Failed''))]
   \<and> logger_error (JStr ''Failed'') (JStr '''') []
       \<noteq> Inr [(''error'', Call2 (JStr '''') (JStr ''Failed''))]"
  by (simp add: logger_error_def createLogHandler_def pinoLogger_log_def)





section \<open>The request name in the store\<close>

text \<open>Whatever \<^verbatim>\<open>customProps\<close> writes is a non-empty string, since it contains \<^verbatim>\<open>" - "\<close>.\<close>

lemma request_store_invariant:
  "request_store st \<Longrightarrow>
     st ''requestName'' = None \<or> (\<exists>n. n \<noteq> [] \<and> st ''requestName'' = Some (JStr n))"
proof (induction rule: request_store.induct)
  case fresh
  show ?case by simp
next
  case (written st req res)
  then show ?case
    by (cases "req_route req") (auto simp: customProps_def Let_def httpContext_set_def)
qed

text \<open>
  Claim C6. The dynamic context fields of a record are \<^verbatim>\<open>{requestName}\<close> when the request
  context store holds a request name at emission time, and the empty object when it holds
  none, for every store the middleware can have produced.
\<close>

theorem mixin_request_name:
  "request_store st \<Longrightarrow>
     mixin st = (case st ''requestName'' of None \<Rightarrow> [] | Some v \<Rightarrow> [(''requestName'', v)])"
  using request_store_invariant [of st]
  by (auto simp: mixin_def httpContext_get_def Let_def)

theorem mixin_request_name_witness:
  "request_store (snd (customProps scenario_request scenario_response Map.empty))
   \<and> mixin (snd (customProps scenario_request scenario_response Map.empty))
       = [(''requestName'', JStr ''GET - /api/v1/test'')]
   \<and> request_store Map.empty \<and> mixin Map.empty = []"
proof -
  have r0: "request_store Map.empty"
    by (rule request_store.fresh)
  have r1: "request_store (snd (customProps scenario_request scenario_response Map.empty))"
    by (rule request_store.written [OF r0])
  show ?thesis
    using r0 r1 mixin_request_name [OF r1] mixin_request_name [OF r0]
    by (simp add: customProps_def scenario_request_def scenario_response_def httpContext_set_def)
qed

section \<open>The summary of a logged request\<close>

lemma string_of_int_0: "string_of_int 0 = ''0''"
  by (simp add: string_of_int_def string_of_nat.simps digit_char_def)

lemma customErrorMessage_eq: "customErrorMessage req res = customSuccessMessage req res"
  by (simp add: customErrorMessage_def customSuccessMessage_def)

lemma expressLogger_logged:
  "\<not> ignore req \<Longrightarrow>
     emitted (expressLogger req res st) = emitted st @
       [\<lparr>s_level = customLogLevel req res, s_req = serializers_req req,
         s_res = serializers_res res, s_props = fst (customProps req res (store st)),
         s_message = customSuccessMessage req res\<rparr>]
     \<and> store (expressLogger req res st) = snd (customProps req res (store st))
     \<and> next_calls (expressLogger req res st) = Suc (next_calls st)"
  by (simp add: expressLogger_def Let_def next_handler_def customErrorMessage_eq split: prod.splits)

lemma customProps_error:
  "map_of (fst (customProps req res cs)) ''error'' =
     (if statusCode res \<ge> 400
      then Some (JErr (case locals_error res of
                         Some e \<Rightarrow> e
                       | None \<Rightarrow> new_Error (if statusMessage res = [] then ''Request failed''
                                              else statusMessage res)))
      else None)"
  by (simp add: customProps_def Let_def)

lemma customSuccessMessage_format:
  "customSuccessMessage req res =
     req_method req @ '' '' @ req_url req @ '' '' @ string_of_int (statusCode res) @ '' ''
       @ string_of_int (case responseTime res of None \<Rightarrow> 0 | Some t \<Rightarrow> t) @ ''ms - ''
       @ (if header_truthy (getHeader res ''Content-Length'')
          then header_to_string (getHeader res ''Content-Length'') else ''0b'')"
  by (simp add: customSuccessMessage_def Let_def string_of_int_0 split: option.splits)

text \<open>
  Claim C7. In the summary of every logged request: from status 400 on the level is
  \<^verbatim>\<open>error\<close> and the record has an \<^verbatim>\<open>error\<close> field, the error in the response's locals
  when one is set, otherwise a new \<^verbatim>\<open>Error\<close> whose message is the status text, or
  \<^verbatim>\<open>"Request failed"\<close> when the status text is empty; below 400 the level is \<^verbatim>\<open>info\<close>
  and there is no \<^verbatim>\<open>error\<close> field.
\<close>

theorem summary_level_and_error:
  assumes "\<not> ignore req"
  shows "\<exists>sm. emitted (expressLogger req res st) = emitted st @ [sm]
     \<and> (statusCode res \<ge> 400 \<longrightarrow>
          s_level sm = ''error''
          \<and> map_of (s_props sm) ''error'' =
              Some (JErr (case locals_error res of
                            Some e \<Rightarrow> e
                          | None \<Rightarrow> new_Error (if statusMessage res = [] then ''Request failed''
                                                 else statusMessage res))))
     \<and> (statusCode res < 400 \<longrightarrow>
          s_level sm = ''info'' \<and> map_of (s_props sm) ''error'' = None)"
  using expressLogger_logged [OF assms, of res st]
  by (simp add: customProps_error customLogLevel_def)

theorem summary_level_and_error_witness:
  "\<not> ignore unresolved_request
   \<and> statusCode failed_response \<ge> 400
   \<and> (\<exists>sm. emitted (expressLogger unresolved_request failed_response initial_state) = [sm]
         \<and> s_level sm = ''error''
         \<and> map_of (s_props sm) ''error'' = Some (JErr (ErrorObj ''Error'' ''Request failed''))
         \<and> map_of (s_props sm) ''route'' = Some (JStr ''N/A''))
   \<and> \<not> ignore scenario_request
   \<and> statusCode scenario_response < 400
   \<and> (\<exists>sm. emitted (expressLogger scenario_request scenario_response initial_state) = [sm]
         \<and> s_level sm = ''info''
         \<and> map_of (s_props sm) ''error'' = None)"
proof -
  have i1: "\<not> ignore unresolved_request"
    by (simp add: ignore_def unresolved_request_def)
  have i2: "\<not> ignore scenario_request"
    by (simp add: ignore_def scenario_request_def)
  have e1: "emitted (expressLogger unresolved_request failed_response initial_state) =
      [\<lparr>s_level = customLogLevel unresolved_request failed_response,
        s_req = serializers_req unresolved_request,
        s_res = serializers_res failed_response,
        s_props = fst (customProps unresolved_request failed_response Map.empty),
        s_message = customSuccessMessage unresolved_request failed_response\<rparr>]"
    using expressLogger_logged [OF i1, of failed_response initial_state]
    by (simp add: initial_state_def)
  have r: "map_of (fst (customProps unresolved_request failed_response Map.empty)) ''route''
      = Some (JStr ''N/A'')"
    by (simp add: customProps_def unresolved_request_def failed_response_def)
  show ?thesis
    using i1 i2 r e1
      summary_level_and_error [OF i1, of failed_response initial_state]
      summary_level_and_error [OF i2, of scenario_response initial_state]
    by (auto simp: initial_state_def failed_response_def scenario_response_def new_Error_def)
qed

text \<open>
  Claim C8. A request whose url is exactly \<^verbatim>\<open>/api/v1/health/liveness\<close> or
  \<^verbatim>\<open>/api/v1/health/readiness\<close> produces no summary record and no write to the request
  context store: the middleware calls \<^verbatim>\<open>next()\<close> once and leaves everything else as it
  was. (Nor would \<^verbatim>\<open>customProps\<close> write anything for a request whose route is not
  resolved, which is the case when the middleware runs ahead of the router.)
\<close>

theorem health_check_skipped:
  assumes "req_url req = ''/api/v1/health/liveness'' \<or> req_url req = ''/api/v1/health/readiness''"
  shows "expressLogger req res st = st\<lparr>next_calls := Suc (next_calls st)\<rparr>
     \<and> (req_route req = None \<longrightarrow> snd (customProps req res (store st)) = store st)"
  using assms by (auto simp: expressLogger_def ignore_def next_handler_def customProps_def)

theorem health_check_skipped_witness:
  "req_url liveness_request = ''/api/v1/health/liveness''
   \<and> expressLogger liveness_request scenario_response initial_state
       = \<lparr>store = Map.empty, emitted = [], next_calls = 1\<rparr>"
proof -
  have u: "req_url liveness_request = ''/api/v1/health/liveness''"
    by (simp add: liveness_request_def)
  show ?thesis
    using u health_check_skipped [of liveness_request scenario_response initial_state]
    by (simp add: initial_state_def)
qed

text \<open>
  Claim C9. The summary message of every logged request is
  \<^verbatim>\<open>"<METHOD> <url> <statusCode> <elapsedMs>ms - <sizeBytes>"\<close>: the elapsed time is the
  recorded response time, \<^verbatim>\<open>0\<close> when none was recorded; the size is the content-length
  header when that is truthy and the literal \<^verbatim>\<open>"0b"\<close> otherwise, so a \<^verbatim>\<open>null\<close> or
  \<^verbatim>\<open>undefined\<close> header renders as \<^verbatim>\<open>"0b"\<close> and the string \<^verbatim>\<open>"0"\<close> passes through
  unchanged.
\<close>

theorem summary_message_format:
  assumes "\<not> ignore req"
  shows "\<exists>sm elapsedMs sizeBytes.
       emitted (expressLogger req res st) = emitted st @ [sm]
     \<and> s_message sm =
         req_method req @ '' '' @ req_url req @ '' '' @ string_of_int (statusCode res) @ '' ''
           @ string_of_int elapsedMs @ ''ms - '' @ sizeBytes
     \<and> elapsedMs = (case responseTime res of None \<Rightarrow> 0 | Some t \<Rightarrow> t)
     \<and> sizeBytes = (if header_truthy (getHeader res ''Content-Length'')
                     then header_to_string (getHeader res ''Content-Length'') else ''0b'')
     \<and> (responseTime res = None \<longrightarrow> string_of_int elapsedMs @ ''ms'' = ''0ms'')
     \<and> (getHeader res ''Content-Length'' = HUndefined \<or> getHeader res ''Content-Length'' = HNull
          \<longrightarrow> sizeBytes = ''0b'')
     \<and> (getHeader res ''Content-Length'' = HStr ''0'' \<longrightarrow> sizeBytes = ''0'')"
  using expressLogger_logged [OF assms, of res st]
  by (auto simp: customSuccessMessage_format string_of_int_0)

theorem summary_message_format_witness:
  "\<not> ignore scenario_request
   \<and> (\<exists>sm. emitted (expressLogger scenario_request scenario_response initial_state) = [sm]
         \<and> s_message sm = ''GET /api/v1/test 200 123ms - 456'')
   \<and> \<not> ignore unresolved_request
   \<and> (\<exists>sm. emitted (expressLogger unresolved_request failed_response initial_state) = [sm]
         \<and> s_message sm = ''GET /nowhere 500 0ms - 0b'')"
proof -
  have i1: "\<not> ignore unresolved_request"
    by (simp add: ignore_def unresolved_request_def)
  have i2: "\<not> ignore scenario_request"
    by (simp add: ignore_def scenario_request_def)
  have n: "string_of_int 200 = ''200''" "string_of_int 123 = ''123''" "string_of_int 500 = ''500''"
      "string_of_int 0 = ''0''"
    by (simp_all add: string_of_int_def string_of_nat.simps digit_char_def)
  show ?thesis
    using i1 i2
      summary_message_format [OF i2, of scenario_response initial_state]
      summary_message_format [OF i1, of failed_response initial_state]
    by (auto simp: initial_state_def scenario_request_def scenario_response_def
        unresolved_request_def failed_response_def n)
qed

section \<open>Flushing\<close>

text \<open>
  Claim C10. \<^verbatim>\<open>flush()\<close> resolves exactly when the sink's flush callback signals success
  (no error), and rejects with the very error the sink supplies when it signals failure;
  while the sink has not called back, the outcome is pending.
\<close>

theorem flush_outcome:
  "flush (\<lambda>callback. callback signal) = (case signal of None \<Rightarrow> Resolved | Some e \<Rightarrow> Rejected e)
   \<and> (flush (\<lambda>callback. callback signal) = Resolved \<longleftrightarrow> signal = None)
   \<and> (flush (\<lambda>callback. callback signal) = Rejected e \<longleftrightarrow> signal = Some e)
   \<and> flush (\<lambda>callback. Pending) = Pending"
  by (cases signal) (auto simp: flush_def new_Promise_def)

theorem flush_outcome_witness:
  "flush (\<lambda>callback. callback (Some (ErrorObj ''Error'' ''Disk full'')))
     = Rejected (ErrorObj ''Error'' ''Disk full'')
   \<and> flush (\<lambda>callback. callback None) = Resolved"
  using flush_outcome [of "Some (ErrorObj ''Error'' ''Disk full'')" "ErrorObj ''Error'' ''Disk full''"]
    flush_outcome [of None "ErrorObj ''Error'' ''Disk full''"]
  by simp

end
